theory Spec2Isabelle
  imports Main "HOL-Library.Char_ord" "HOL-Library.List_Lexorder" "HOL-Library.Multiset"
begin

unbundle bit_operations_syntax

section \<open>The history store (server: the two routes on /api/history)\<close>

subsection \<open>SHA-256, hexadecimal digest\<close>

text \<open>
  The route computes \<^verbatim>\<open>crypto.createHash('sha256').update(originalCode + improvedCode).digest('hex')\<close>.
  The digest function belongs to the runtime's library, not to the repository; it is written
  out here from FIPS 180-4. A 32-bit word is a natural number below \<open>2 ^ 32\<close>,
  with the wrap-around of the addition written out; a text is the list of the bytes of its
  UTF-8 encoding, which is what \<^verbatim>\<open>update\<close> hashes.
\<close>

type_synonym word32 = nat

definition add32 :: "word32 \<Rightarrow> word32 \<Rightarrow> word32" where
  "add32 x y = (x + y) mod 4294967296"

definition rotr :: "nat \<Rightarrow> word32 \<Rightarrow> word32" where
  "rotr n x = x div 2 ^ n + (x mod 2 ^ n) * 2 ^ (32 - n)"

definition shr :: "nat \<Rightarrow> word32 \<Rightarrow> word32" where
  "shr n x = x div 2 ^ n"

definition Ch :: "word32 \<Rightarrow> word32 \<Rightarrow> word32 \<Rightarrow> word32" where
  "Ch x y z = (x AND y) XOR ((4294967295 - x) AND z)"

definition Maj :: "word32 \<Rightarrow> word32 \<Rightarrow> word32 \<Rightarrow> word32" where
  "Maj x y z = (x AND y) XOR (x AND z) XOR (y AND z)"

definition bsig0 :: "word32 \<Rightarrow> word32" where
  "bsig0 x = rotr 2 x XOR rotr 13 x XOR rotr 22 x"
definition bsig1 :: "word32 \<Rightarrow> word32" where
  "bsig1 x = rotr 6 x XOR rotr 11 x XOR rotr 25 x"
definition ssig0 :: "word32 \<Rightarrow> word32" where
  "ssig0 x = rotr 7 x XOR rotr 18 x XOR shr 3 x"
definition ssig1 :: "word32 \<Rightarrow> word32" where
  "ssig1 x = rotr 17 x XOR rotr 19 x XOR shr 10 x"

text \<open>
  The round constants (the first 32 bits of the fractional parts of the cube roots of the
  first 64 primes) and the initial hash value (of the square roots of the first 8 primes),
  in decimal.
\<close>

definition K256 :: "word32 list" where
  "K256 =
    [1116352408, 1899447441, 3049323471, 3921009573, 961987163, 1508970993,
     2453635748, 2870763221, 3624381080, 310598401, 607225278, 1426881987,
     1925078388, 2162078206, 2614888103, 3248222580, 3835390401, 4022224774,
     264347078, 604807628, 770255983, 1249150122, 1555081692, 1996064986,
     2554220882, 2821834349, 2952996808, 3210313671, 3336571891, 3584528711,
     113926993, 338241895, 666307205, 773529912, 1294757372, 1396182291,
     1695183700, 1986661051, 2177026350, 2456956037, 2730485921, 2820302411,
     3259730800, 3345764771, 3516065817, 3600352804, 4094571909, 275423344,
     430227734, 506948616, 659060556, 883997877, 958139571, 1322822218,
     1537002063, 1747873779, 1955562222, 2024104815, 2227730452, 2361852424,
     2428436474, 2756734187, 3204031479, 3329325298]"

definition H256 :: "word32 list" where
  "H256 =
    [1779033703, 3144134277, 1013904242, 2773480762,
     1359893119, 2600822924, 528734635, 1541459225]"

definition be64 :: "nat \<Rightarrow> nat list" where
  "be64 n = [n div 2 ^ 56 mod 256, n div 2 ^ 48 mod 256, n div 2 ^ 40 mod 256, n div 2 ^ 32 mod 256,
             n div 2 ^ 24 mod 256, n div 2 ^ 16 mod 256, n div 2 ^ 8 mod 256, n mod 256]"

definition pad :: "nat list \<Rightarrow> nat list" where
  "pad bs = bs @ [128] @ replicate ((119 - length bs mod 64) mod 64) 0 @ be64 (8 * length bs)"

fun words_of :: "nat list \<Rightarrow> word32 list" where
  "words_of (a # b # c # d # bs) = (((a * 256 + b) * 256 + c) * 256 + d) # words_of bs"
| "words_of _ = []"

definition next_window :: "word32 list \<Rightarrow> word32 list" where
  "next_window ws = tl ws @ [add32 (add32 (add32 (ssig1 (ws ! 14)) (ws ! 9)) (ssig0 (ws ! 1))) (ws ! 0)]"

fun round :: "word32 list \<Rightarrow> word32 \<Rightarrow> word32 \<Rightarrow> word32 list" where
  "round [a, b, c, d, e, f, g, h] k w =
     (let t1 = add32 (add32 (add32 (add32 h (bsig1 e)) (Ch e f g)) k) w;
          t2 = add32 (bsig0 a) (Maj a b c)
      in [add32 t1 t2, a, b, c, add32 d t1, e, f, g])"
| "round st _ _ = st"

fun rounds :: "word32 list \<Rightarrow> word32 list \<Rightarrow> word32 list \<Rightarrow> word32 list" where
  "rounds [] ws st = st"
| "rounds (k # ks) ws st = rounds ks (next_window ws) (round st k (ws ! 0))"

definition compress :: "word32 list \<Rightarrow> word32 list \<Rightarrow> word32 list" where
  "compress hs blk = map2 add32 hs (rounds K256 blk hs)"

fun blocks :: "nat \<Rightarrow> word32 list \<Rightarrow> word32 list list" where
  "blocks 0 ws = []"
| "blocks (Suc n) ws = (if ws = [] then [] else take 16 ws # blocks n (drop 16 ws))"

definition sha256_words :: "nat list \<Rightarrow> word32 list" where
  "sha256_words bs = (let ws = words_of (pad bs) in foldl compress H256 (blocks (length ws) ws))"

definition hex_digit :: "word32 \<Rightarrow> char" where
  "hex_digit n = ''0123456789abcdef'' ! (n mod 16)"

definition hex32 :: "word32 \<Rightarrow> string" where
  "hex32 w = [hex_digit (w div 2 ^ 28), hex_digit (w div 2 ^ 24), hex_digit (w div 2 ^ 20),
              hex_digit (w div 2 ^ 16), hex_digit (w div 2 ^ 12), hex_digit (w div 2 ^ 8),
              hex_digit (w div 2 ^ 4), hex_digit w]"

definition sha256_hex :: "string \<Rightarrow> string" where
  "sha256_hex s = concat (map hex32 (sha256_words (map of_char s)))"

subsection \<open>The table and the request body\<close>

text \<open>
  One row of the table \<^verbatim>\<open>history\<close>, with the columns of the \<^verbatim>\<open>CREATE TABLE\<close> statement
  (\<open>row_id\<close> is the column \<^verbatim>\<open>id\<close>). The database is the list of rows in insertion order and
  the counter that \<^verbatim>\<open>AUTOINCREMENT\<close> keeps (the largest id handed out so far).
\<close>

record history_row =
  row_id :: nat
  originalCode :: string
  improvedCode :: string
  timestamp :: string
  language :: string
  timeComplexity :: string
  spaceComplexity :: string
  cyclomaticComplexity :: int
  hash :: string

record history_db =
  history :: "history_row list"
  seq :: nat

text \<open>
  The JSON body of a POST, at the types the client sends: each field is absent (\<open>None\<close>) or
  present, the two code fields and the language are texts, the complexity is an object of
  three optional fields.
\<close>

record complexity_body =
  time :: "string option"
  space :: "string option"
  cyclomatic :: "int option"

record history_body =
  body_originalCode :: "string option"
  body_improvedCode :: "string option"
  body_language :: "string option"
  body_complexity :: "complexity_body option"

datatype http_response =
    Json_inserted bool
  | Json_error nat string
  | Json_rows "history_row list"

text \<open>
  \<open>Json_inserted b\<close> is the answer \<^verbatim>\<open>200 {success: true, inserted: b}\<close>, \<open>Json_error st msg\<close> is
  \<^verbatim>\<open>res.status(st).json({error: msg})\<close>, \<open>Json_rows rs\<close> is \<^verbatim>\<open>res.json(history)\<close>.
\<close>

subsection \<open>JavaScript's truthiness and \<^verbatim>\<open>||\<close> on optional values\<close>

definition falsy :: "string option \<Rightarrow> bool" where
  "falsy v = (case v of None \<Rightarrow> True | Some s \<Rightarrow> s = [])"

definition or_else :: "string option \<Rightarrow> string \<Rightarrow> string" where
  "or_else v d = (case v of None \<Rightarrow> d | Some s \<Rightarrow> if s = [] then d else s)"

definition or_zero :: "int option \<Rightarrow> int" where
  "or_zero v = (case v of None \<Rightarrow> 0 | Some n \<Rightarrow> if n = 0 then 0 else n)"

definition complexity_time :: "complexity_body option \<Rightarrow> string option" where
  "complexity_time c = (case c of None \<Rightarrow> None | Some b \<Rightarrow> time b)"

definition complexity_space :: "complexity_body option \<Rightarrow> string option" where
  "complexity_space c = (case c of None \<Rightarrow> None | Some b \<Rightarrow> space b)"

definition complexity_cyclomatic :: "complexity_body option \<Rightarrow> int option" where
  "complexity_cyclomatic c = (case c of None \<Rightarrow> None | Some b \<Rightarrow> cyclomatic b)"

subsection \<open>\<^verbatim>\<open>INSERT OR IGNORE INTO history\<close>\<close>

text \<open>
  The engine takes the next id from the counter first and checks the constraints after. The
  column \<^verbatim>\<open>hash\<close> is \<^verbatim>\<open>UNIQUE\<close>: a row whose hash is in the table already is skipped and the
  statement reports no change, but the id it took is used up; otherwise the row is appended
  under that id and one change is reported. The other constraints of the table
  (\<^verbatim>\<open>NOT NULL\<close>) always hold for the values the route binds.
\<close>

definition insert_or_ignore :: "history_db \<Rightarrow> history_row \<Rightarrow> history_db \<times> nat" where
  "insert_or_ignore db r =
     (if hash r \<in> set (map hash (history db)) then (db\<lparr>seq := Suc (seq db)\<rparr>, 0)
      else (db\<lparr>history := history db @ [r\<lparr>row_id := Suc (seq db)\<rparr>], seq := Suc (seq db)\<rparr>, 1))"

subsection \<open>\<^verbatim>\<open>app.post("/api/history")\<close>\<close>

text \<open>
  \<open>now\<close> is the reading \<^verbatim>\<open>new Date().toISOString()\<close> of the clock; \<open>fault\<close> says that the
  storage engine throws in \<^verbatim>\<open>db.prepare\<close> or \<^verbatim>\<open>stmt.run\<close>, which the route catches and answers
  with status 500. The result is the database after the call and the answer.
\<close>

definition post_history :: "history_db \<Rightarrow> string \<Rightarrow> bool \<Rightarrow> history_body \<Rightarrow> history_db \<times> http_response" where
  "post_history db now fault b =
     (if falsy (body_originalCode b) \<or> falsy (body_improvedCode b)
      then (db, Json_error 400 ''Missing required fields'')
      else if fault then (db, Json_error 500 ''Failed to save history'')
      else
        (let oc = or_else (body_originalCode b) [];
             ic = or_else (body_improvedCode b) [];
             h = sha256_hex (oc @ ic);
             (db', changes) = insert_or_ignore db
                \<lparr>row_id = 0, originalCode = oc, improvedCode = ic, timestamp = now,
                 language = or_else (body_language b) ''unknown'',
                 timeComplexity = or_else (complexity_time (body_complexity b)) ''unknown'',
                 spaceComplexity = or_else (complexity_space (body_complexity b)) ''unknown'',
                 cyclomaticComplexity = or_zero (complexity_cyclomatic (body_complexity b)),
                 hash = h\<rparr>
         in (db', Json_inserted (changes > 0))))"

text \<open>A sequence of POST calls, each with its clock reading, its fault flag and its body.\<close>

fun run_posts :: "history_db \<Rightarrow> (string \<times> bool \<times> history_body) list \<Rightarrow> history_db" where
  "run_posts db [] = db"
| "run_posts db ((now, fault, b) # calls) = run_posts (fst (post_history db now fault b)) calls"

subsection \<open>\<^verbatim>\<open>app.get("/api/history")\<close>\<close>

text \<open>
  \<^verbatim>\<open>SELECT * FROM history ORDER BY timestamp DESC LIMIT 100\<close>. The column is \<^verbatim>\<open>TEXT\<close>, compared
  byte by byte, which is the lexicographic order of \<open>string\<close>. The rows are sorted by
  descending timestamp, rows of equal timestamp staying in the order of their insertion
  (the earlier first), and the first 100 are returned.
\<close>

definition select_history :: "history_db \<Rightarrow> history_row list" where
  "select_history db = take 100 (rev (sort_key timestamp (rev (history db))))"

definition get_history :: "history_db \<Rightarrow> bool \<Rightarrow> http_response" where
  "get_history db fault =
     (if fault then Json_error 500 ''Failed to read history'' else Json_rows (select_history db))"

definition empty_db :: history_db where
  "empty_db = \<lparr>history = [], seq = 0\<rparr>"

definition stored_hashes :: "history_db \<Rightarrow> string set" where
  "stored_hashes db = set (map hash (history db))"

definition body :: "string \<Rightarrow> string \<Rightarrow> string option \<Rightarrow> complexity_body option \<Rightarrow> history_body" where
  "body oc ic l c = \<lparr>body_originalCode = Some oc, body_improvedCode = Some ic,
                     body_language = l, body_complexity = c\<rparr>"


section \<open>The review service (\<^verbatim>\<open>reviewCode\<close>, \<^verbatim>\<open>chatWithCode\<close>)\<close>

subsection \<open>\<^verbatim>\<open>JSON.parse\<close>\<close>

text \<open>
  The parser of ECMA-404 that \<^verbatim>\<open>JSON.parse\<close> implements: \<open>None\<close> is the \<^verbatim>\<open>SyntaxError\<close>. A
  number keeps its literal; a string is the UTF-8 encoding of the string the escapes
  denote; an object keeps its members in the order of the text (a later member of the same
  name is the one a property read finds). The text is cut into tokens first, and the
  tokens drive a pushdown machine over the open arrays and objects.
\<close>

datatype json =
    JNull
  | JBool bool
  | JNumber string
  | JString string
  | JArray "json list"
  | JObject "(string \<times> json) list"

datatype token =
    LBrace | RBrace | LBracket | RBracket | Colon | Comma
  | TString string | TNumber string | TTrue | TFalse | TNull

definition quote :: char where "quote = CHR 0x22"
definition backslash :: char where "backslash = CHR 0x5C"

definition is_ws :: "char \<Rightarrow> bool" where
  "is_ws c = (c = CHR 0x20 \<or> c = CHR 0x09 \<or> c = CHR 0x0A \<or> c = CHR 0x0D)"

definition is_digit :: "char \<Rightarrow> bool" where
  "is_digit c = (CHR ''0'' \<le> c \<and> c \<le> CHR ''9'')"

definition hexval :: "char \<Rightarrow> nat option" where
  "hexval c =
     (if CHR ''0'' \<le> c \<and> c \<le> CHR ''9'' then Some (of_char c - 48)
      else if CHR ''a'' \<le> c \<and> c \<le> CHR ''f'' then Some (of_char c - 87)
      else if CHR ''A'' \<le> c \<and> c \<le> CHR ''F'' then Some (of_char c - 55)
      else None)"

definition hex4 :: "char \<Rightarrow> char \<Rightarrow> char \<Rightarrow> char \<Rightarrow> nat option" where
  "hex4 a b c d =
     (case (hexval a, hexval b, hexval c, hexval d) of
        (Some w, Some x, Some y, Some z) \<Rightarrow> Some (((w * 16 + x) * 16 + y) * 16 + z)
      | _ \<Rightarrow> None)"

datatype string_element = Raw char | Unit nat

definition escape :: "char \<Rightarrow> char option" where
  "escape e =
     (if e = quote \<or> e = backslash \<or> e = CHR ''/'' then Some e
      else if e = CHR ''b'' then Some (CHR 0x08)
      else if e = CHR ''f'' then Some (CHR 0x0C)
      else if e = CHR ''n'' then Some (CHR 0x0A)
      else if e = CHR ''r'' then Some (CHR 0x0D)
      else if e = CHR ''t'' then Some (CHR 0x09)
      else None)"

fun lex_string :: "string \<Rightarrow> string_element list \<Rightarrow> (string_element list \<times> string) option" where
  "lex_string [] acc = None"
| "lex_string (c # cs) acc =
     (if c = quote then Some (acc, cs)
      else if c = backslash then
        (case cs of
           [] \<Rightarrow> None
         | e # r \<Rightarrow>
             if e = CHR ''u'' then
               (case r of
                  h1 # h2 # h3 # h4 # r' \<Rightarrow>
                    (case hex4 h1 h2 h3 h4 of
                       None \<Rightarrow> None
                     | Some u \<Rightarrow> lex_string r' (acc @ [Unit u]))
                | _ \<Rightarrow> None)
             else
               (case escape e of
                  None \<Rightarrow> None
                | Some x \<Rightarrow> lex_string r (acc @ [Raw x])))
      else if c < CHR 0x20 then None
      else lex_string cs (acc @ [Raw c]))"

definition utf8 :: "nat \<Rightarrow> string" where
  "utf8 u =
     (if u < 128 then [char_of u]
      else if u < 2048 then [char_of (192 + u div 64), char_of (128 + u mod 64)]
      else if u < 65536 then
        [char_of (224 + u div 4096), char_of (128 + u div 64 mod 64), char_of (128 + u mod 64)]
      else [char_of (240 + u div 262144), char_of (128 + u div 4096 mod 64),
            char_of (128 + u div 64 mod 64), char_of (128 + u mod 64)])"

fun encode_elements :: "string_element list \<Rightarrow> string" where
  "encode_elements [] = []"
| "encode_elements (Raw c # xs) = c # encode_elements xs"
| "encode_elements (Unit h # Unit l # xs) =
     (if 55296 \<le> h \<and> h < 56320 \<and> 56320 \<le> l \<and> l < 57344
      then utf8 (65536 + (h - 55296) * 1024 + (l - 56320)) @ encode_elements xs
      else utf8 h @ encode_elements (Unit l # xs))"
| "encode_elements (Unit u # xs) = utf8 u @ encode_elements xs"

definition lex_digits :: "string \<Rightarrow> (string \<times> string) option" where
  "lex_digits s = (if takeWhile is_digit s = [] then None
                   else Some (takeWhile is_digit s, dropWhile is_digit s))"

definition lex_int :: "string \<Rightarrow> (string \<times> string) option" where
  "lex_int s = (case s of
                  [] \<Rightarrow> None
                | c # r \<Rightarrow> if c = CHR ''0'' then Some ([c], r) else lex_digits s)"

definition lex_frac :: "string \<Rightarrow> (string \<times> string) option" where
  "lex_frac s = (case s of
                   [] \<Rightarrow> Some ([], s)
                 | c # r \<Rightarrow>
                     if c = CHR ''.'' then map_option (\<lambda>(ds, r'). (c # ds, r')) (lex_digits r)
                     else Some ([], s))"

definition lex_exp :: "string \<Rightarrow> (string \<times> string) option" where
  "lex_exp s = (case s of
                  [] \<Rightarrow> Some ([], s)
                | c # r \<Rightarrow>
                    if c = CHR ''e'' \<or> c = CHR ''E'' then
                      (case r of
                         [] \<Rightarrow> None
                       | g # r' \<Rightarrow>
                           if g = CHR ''+'' \<or> g = CHR ''-''
                           then map_option (\<lambda>(ds, r''). (c # g # ds, r'')) (lex_digits r')
                           else map_option (\<lambda>(ds, r''). (c # ds, r'')) (lex_digits r))
                    else Some ([], s))"

definition lex_number :: "string \<Rightarrow> (string \<times> string) option" where
  "lex_number s =
     (let (sgn, s0) = (case s of
                         [] \<Rightarrow> ([], s)
                       | c # r \<Rightarrow> if c = CHR ''-'' then ([c], r) else ([], s))
      in case lex_int s0 of
           None \<Rightarrow> None
         | Some (ip, s1) \<Rightarrow>
             (case lex_frac s1 of
                None \<Rightarrow> None
              | Some (fp, s2) \<Rightarrow>
                  (case lex_exp s2 of
                     None \<Rightarrow> None
                   | Some (ep, s3) \<Rightarrow> Some (sgn @ ip @ fp @ ep, s3))))"

lemma lex_string_shorter: "lex_string cs acc = Some (x, r) \<Longrightarrow> length r < length cs"
proof (induction cs acc rule: lex_string.induct)
  case (1 acc)
  then show ?case by simp
next
  case (2 c cs acc)
  show ?case
  proof (cases "c = quote")
    case True
    with "2.prems" show ?thesis by simp
  next
    case nq: False
    show ?thesis
    proof (cases "c = backslash")
      case bs: True
      show ?thesis
      proof (cases cs)
        case Nil
        with "2.prems" nq bs show ?thesis by simp
      next
        case (Cons e r0)
        show ?thesis
        proof (cases "e = CHR ''u''")
          case u: True
          from "2.prems" nq bs Cons u obtain h1 h2 h3 h4 r' w where
            r0: "r0 = h1 # h2 # h3 # h4 # r'" and hx: "hex4 h1 h2 h3 h4 = Some w"
            and rec: "lex_string r' (acc @ [Unit w]) = Some (x, r)"
            by (auto split: list.splits option.splits)
          have "length r < length r'"
            by (rule "2.IH"(1) [OF nq bs Cons u _ _ _ _ hx rec]) (simp_all add: r0)
          then show ?thesis
            by (simp add: Cons r0)
        next
          case nu: False
          from "2.prems" nq bs Cons nu obtain y where
            es: "escape e = Some y" and rec: "lex_string r0 (acc @ [Raw y]) = Some (x, r)"
            by (auto split: option.splits)
          from "2.IH"(2) [OF nq bs Cons nu es rec] show ?thesis
            by (simp add: Cons)
        qed
      qed
    next
      case nb: False
      show ?thesis
      proof (cases "c < CHR 0x20")
        case True
        with "2.prems" nq nb show ?thesis by simp
      next
        case nc: False
        from "2.prems" nq nb nc have rec: "lex_string cs (acc @ [Raw c]) = Some (x, r)"
          by simp
        from "2.IH"(3) [OF nq nb nc rec] show ?thesis by simp
      qed
    qed
  qed
qed

lemma lex_digits_shorter: "lex_digits s = Some (x, r) \<Longrightarrow> length r < length s"
proof -
  assume a: "lex_digits s = Some (x, r)"
  then have "takeWhile is_digit s \<noteq> []" and "r = dropWhile is_digit s"
    by (auto simp: lex_digits_def split: if_splits)
  moreover have "length (takeWhile is_digit s) + length (dropWhile is_digit s) = length s"
    by (metis length_append takeWhile_dropWhile_id)
  ultimately show ?thesis by (cases "takeWhile is_digit s") auto
qed

lemma lex_int_shorter: "lex_int s = Some (x, r) \<Longrightarrow> length r < length s"
  by (auto simp: lex_int_def split: list.splits if_splits dest: lex_digits_shorter)

lemma lex_frac_shorter: "lex_frac s = Some (x, r) \<Longrightarrow> length r \<le> length s"
  by (auto simp: lex_frac_def split: list.splits if_splits dest!: lex_digits_shorter)

lemma lex_exp_shorter: "lex_exp s = Some (x, r) \<Longrightarrow> length r \<le> length s"
  by (auto simp: lex_exp_def split: list.splits if_splits dest!: lex_digits_shorter)

lemma lex_number_shorter: "lex_number s = Some (x, r) \<Longrightarrow> length r < length s"
  by (auto simp: lex_number_def Let_def split: list.splits if_splits option.splits prod.splits
           dest!: lex_int_shorter lex_frac_shorter lex_exp_shorter)

function tokenize :: "string \<Rightarrow> token list option" where
  "tokenize [] = Some []"
| "tokenize (c # cs) =
     (if is_ws c then tokenize cs
      else if c = CHR ''{'' then map_option ((#) LBrace) (tokenize cs)
      else if c = CHR ''}'' then map_option ((#) RBrace) (tokenize cs)
      else if c = CHR ''['' then map_option ((#) LBracket) (tokenize cs)
      else if c = CHR '']'' then map_option ((#) RBracket) (tokenize cs)
      else if c = CHR '':'' then map_option ((#) Colon) (tokenize cs)
      else if c = CHR '','' then map_option ((#) Comma) (tokenize cs)
      else if c = quote then
        (case lex_string cs [] of
           None \<Rightarrow> None
         | Some (els, r) \<Rightarrow> map_option ((#) (TString (encode_elements els))) (tokenize r))
      else if take 4 (c # cs) = ''true'' then map_option ((#) TTrue) (tokenize (drop 3 cs))
      else if take 5 (c # cs) = ''false'' then map_option ((#) TFalse) (tokenize (drop 4 cs))
      else if take 4 (c # cs) = ''null'' then map_option ((#) TNull) (tokenize (drop 3 cs))
      else
        (case lex_number (c # cs) of
           None \<Rightarrow> None
         | Some (n, r) \<Rightarrow> map_option ((#) (TNumber n)) (tokenize r)))"
  by pat_completeness auto
termination
proof (relation "measure length")
qed (auto dest: lex_string_shorter lex_number_shorter)

datatype expect = Value | ValueOrClose | KeyOrClose | Key | ColonNext | CommaOrClose | End json

datatype container = Arr "json list" | Obj "(string \<times> json) list" | ObjKey "(string \<times> json) list" string

fun finish :: "json \<Rightarrow> container list \<Rightarrow> (expect \<times> container list) option" where
  "finish v [] = Some (End v, [])"
| "finish v (Arr es # st) = Some (CommaOrClose, Arr (es @ [v]) # st)"
| "finish v (ObjKey ms k # st) = Some (CommaOrClose, Obj (ms @ [(k, v)]) # st)"
| "finish v (Obj ms # st) = None"

fun open_value :: "token \<Rightarrow> container list \<Rightarrow> (expect \<times> container list) option" where
  "open_value (TString s) st = finish (JString s) st"
| "open_value (TNumber n) st = finish (JNumber n) st"
| "open_value TTrue st = finish (JBool True) st"
| "open_value TFalse st = finish (JBool False) st"
| "open_value TNull st = finish JNull st"
| "open_value LBracket st = Some (ValueOrClose, Arr [] # st)"
| "open_value LBrace st = Some (KeyOrClose, Obj [] # st)"
| "open_value _ st = None"

fun step :: "expect \<Rightarrow> container list \<Rightarrow> token \<Rightarrow> (expect \<times> container list) option" where
  "step Value st t = open_value t st"
| "step ValueOrClose (Arr es # st) RBracket = finish (JArray es) st"
| "step ValueOrClose st t = open_value t st"
| "step KeyOrClose (Obj ms # st) RBrace = finish (JObject ms) st"
| "step KeyOrClose (Obj ms # st) (TString k) = Some (ColonNext, ObjKey ms k # st)"
| "step Key (Obj ms # st) (TString k) = Some (ColonNext, ObjKey ms k # st)"
| "step ColonNext st Colon = Some (Value, st)"
| "step CommaOrClose (Arr es # st) Comma = Some (Value, Arr es # st)"
| "step CommaOrClose (Arr es # st) RBracket = finish (JArray es) st"
| "step CommaOrClose (Obj ms # st) Comma = Some (Key, Obj ms # st)"
| "step CommaOrClose (Obj ms # st) RBrace = finish (JObject ms) st"
| "step _ _ _ = None"

fun run :: "expect \<Rightarrow> container list \<Rightarrow> token list \<Rightarrow> json option" where
  "run e st [] = (case e of End v \<Rightarrow> Some v | _ \<Rightarrow> None)"
| "run e st (t # ts) = (case step e st t of None \<Rightarrow> None | Some (e', st') \<Rightarrow> run e' st' ts)"

definition JSON_parse :: "string \<Rightarrow> json option" where
  "JSON_parse s = (case tokenize s of None \<Rightarrow> None | Some ts \<Rightarrow> run Value [] ts)"

subsection \<open>Option types and the model table\<close>

datatype ReviewMode = student | interview | industry

datatype ImplementationStyle = default_style | functional | recursive | flat

datatype VerbosityLevel = concise | normal | detailed

datatype ToneStyle = professional | casual | encouraging

fun mode_name :: "ReviewMode \<Rightarrow> string" where
  "mode_name student = ''student''"
| "mode_name interview = ''interview''"
| "mode_name industry = ''industry''"

fun style_name :: "ImplementationStyle \<Rightarrow> string" where
  "style_name default_style = ''default''"
| "style_name functional = ''functional''"
| "style_name recursive = ''recursive''"
| "style_name flat = ''flat''"

fun verbosity_name :: "VerbosityLevel \<Rightarrow> string" where
  "verbosity_name concise = ''concise''"
| "verbosity_name normal = ''normal''"
| "verbosity_name detailed = ''detailed''"

fun tone_name :: "ToneStyle \<Rightarrow> string" where
  "tone_name professional = ''professional''"
| "tone_name casual = ''casual''"
| "tone_name encouraging = ''encouraging''"

definition toUpperCase :: "string \<Rightarrow> string" where
  "toUpperCase s = map (\<lambda>c. if CHR ''a'' \<le> c \<and> c \<le> CHR ''z'' then char_of (of_char c - (32::nat)) else c) s"

text \<open>
  \<^verbatim>\<open>mapModel\<close>: a \<^verbatim>\<open>switch\<close> on the identifier, whose \<^verbatim>\<open>default\<close> returns the argument.
\<close>

definition mapModel :: "string \<Rightarrow> string" where
  "mapModel model =
     (if model = ''claude-4'' then ''gemini-3-flash-preview''
      else if model = ''gpt-5'' then ''gemini-3.1-pro-preview''
      else if model = ''microsoft-copilot'' then ''gemini-3.1-pro-preview''
      else if model = ''github-copilot'' then ''gemini-3.1-pro-preview''
      else model)"

fun modeInstructions :: "ReviewMode \<Rightarrow> string" where
  "modeInstructions student = ''Focus on beginner-friendly explanations, explaining basic concepts, and simplifying logic for a 1st-year student.''"
| "modeInstructions interview = ''Focus on FAANG standards, competitive coding style, optimal time/space complexity, and edge case handling.''"
| "modeInstructions industry = ''Focus on production-ready code, clean architecture, scalability, robust error handling, and industry best practices.''"

fun styleInstructions :: "ImplementationStyle \<Rightarrow> string" where
  "styleInstructions default_style = ''Use the most idiomatic and effective implementation style for the target language.''"
| "styleInstructions functional = ''Prioritize a functional programming style (e.g., pure functions, immutability, higher-order functions like map/filter/reduce).''"
| "styleInstructions recursive = ''Prioritize using recursion for any repetitive or iterative logic where appropriate.''"
| "styleInstructions flat = ''Write the code in a flat, procedural style WITHOUT using any functions or recursions. Use simple loops and global/local variables directly in the main execution flow.''"

subsection \<open>The prompt of \<^verbatim>\<open>reviewCode\<close>\<close>

text \<open>
  The parameter \<^verbatim>\<open>language\<close> of the source is \<open>lang\<close> here; \<open>targetLanguage\<close> is optional
  (\<open>None\<close> is \<^verbatim>\<open>undefined\<close>). A text is truthy when it is not empty.
\<close>

definition isAuto :: "string \<Rightarrow> bool" where
  "isAuto lang = (lang = ''auto'')"

definition isConversion :: "string \<Rightarrow> string option \<Rightarrow> bool" where
  "isConversion lang targetLanguage =
     (case targetLanguage of
        None \<Rightarrow> False
      | Some t \<Rightarrow> t \<noteq> [] \<and> t \<noteq> ''none'' \<and> t \<noteq> lang)"

definition text_of :: "string option \<Rightarrow> string" where
  "text_of v = (case v of None \<Rightarrow> ''undefined'' | Some s \<Rightarrow> s)"

definition fence_language :: "string \<Rightarrow> string option \<Rightarrow> string" where
  "fence_language lang targetLanguage =
     (case targetLanguage of
        None \<Rightarrow> lang
      | Some t \<Rightarrow> if t \<noteq> [] \<and> t \<noteq> ''none'' then t else lang)"

text \<open>
  The line of the prompt that asks for a conversion, empty when \<^verbatim>\<open>isConversion\<close> is falsy.
\<close>

definition conversion_directive :: "string \<Rightarrow> string option \<Rightarrow> string" where
  "conversion_directive lang targetLanguage =
     (if isConversion lang targetLanguage
      then ''TARGET LANGUAGE FOR CONVERSION: '' @ text_of targetLanguage
           @ ''. You MUST convert the code to '' @ text_of targetLanguage @ '' while optimizing it.''
      else [])"

definition newline :: char where
  "newline = CHR 0x0A"

fun join_lines :: "string list \<Rightarrow> string" where
  "join_lines [] = []"
| "join_lines [l] = l"
| "join_lines (l # ls) = l @ newline # join_lines ls"

text \<open>The template literal passed as \<^verbatim>\<open>contents\<close>, line by line.\<close>

definition review_prompt_lines ::
  "string \<Rightarrow> string \<Rightarrow> ReviewMode \<Rightarrow> string option \<Rightarrow> ImplementationStyle \<Rightarrow> string \<Rightarrow> string
   \<Rightarrow> VerbosityLevel \<Rightarrow> ToneStyle \<Rightarrow> string list" where
  \<open>review_prompt_lines code lang mode targetLanguage style errorLog houseStyle verbosity tone =
     [''You are a dual-stage AI Refinement Agent. Your goal is to process a code snippet AND its corresponding error/bug log to produce exactly two distinct sections: CORRECTION and OPTIMIZATION.'',
      [],
      ''      Review the following code. '',
      ''      '' @ (if isAuto lang then ''First, detect the programming language of the code.'' else ''Source Language: '' @ lang),
      ''      '' @ conversion_directive lang targetLanguage,
      ''      Mode: '' @ toUpperCase (mode_name mode) @ '' - '' @ modeInstructions mode,
      ''      Implementation Style: '' @ toUpperCase (style_name style) @ '' - '' @ styleInstructions style,
      ''      Verbosity: '' @ toUpperCase (verbosity_name verbosity) @ '' - '' @ (if verbosity = concise then ''Keep explanations short and to the point.'' else if verbosity = detailed then ''Provide in-depth explanations, covering all edge cases and reasoning.'' else ''Provide standard, balanced explanations.''),
      ''      Tone: '' @ toUpperCase (tone_name tone) @ '' - '' @ (if tone = casual then ''Use a friendly, conversational tone.'' else if tone = encouraging then ''Be highly supportive, positive, and encouraging.'' else ''Maintain a formal, objective, and professional tone.''),
      ''      '',
      ''      '' @ (if errorLog \<noteq> [] then ''ERROR/BUG LOG:'' @ [newline] @ errorLog @ [newline] else ''No error log provided. Please infer potential errors from the code itself.''),
      ''      '' @ (if houseStyle \<noteq> [] then ''HOUSE STYLE GUIDELINES:'' @ [newline] @ houseStyle @ [newline] else ''No specific house style provided. Follow general industry best practices.''),
      ''      '',
      ''      Tasks:'',
      ''      1. '' @ (if isAuto lang then ''Identify the source programming language.'' else []),
      ''      2. Identify bugs, performance issues, best-practice violations, and security vulnerabilities (e.g., SQL injection, XSS, hardcoded secrets) in the original code.'',
      ''      3. Provide the best overall optimized/corrected code in the `optimizedCode` field. Ensure it strictly adheres to the HOUSE STYLE GUIDELINES if provided.'',
      ''      4. In the `explanation` field, you MUST follow this exact structure using multi-line Markdown:'',
      ''         '',
      ''         ### '' @ [CHR 0xF0, CHR 0x9F, CHR 0x94, CHR 0x8D] @ '' Phase 1: Mandatory Correction (P0)'',
      ''         **Root Cause Analysis:**'',
      ''         [Provide a detailed, multi-line explanation of why the code failed or is suboptimal.]'',
      ''         '',
      ''         **### '' @ [CHR 0xF0, CHR 0x9F, CHR 0x9B, CHR 0xA0] @ [CHR 0xEF, CHR 0xB8, CHR 0x8F] @ '' CORRECTED CODE**'',
      ''         ```'' @ fence_language lang targetLanguage,
      ''         [Provide the hotfix code here]'',
      ''         ```'',
      ''         '',
      ''         ### '' @ [CHR 0xF0, CHR 0x9F, CHR 0x9A, CHR 0x80] @ '' Phase 2: Triple Optimization (P1)'',
      ''         '',
      ''         #### Option 1: Clean/Readable'',
      ''         [Explain the approach]'',
      ''         ```'' @ fence_language lang targetLanguage,
      ''         [Code for Option 1]'',
      ''         ```'',
      ''         '',
      ''         #### Option 2: High Performance'',
      ''         [Explain the approach]'',
      ''         ```'' @ fence_language lang targetLanguage,
      ''         [Code for Option 2]'',
      ''         ```'',
      ''         '',
      ''         #### Option 3: Modern Agentic'',
      ''         [Explain the approach]'',
      ''         ```'' @ fence_language lang targetLanguage,
      ''         [Code for Option 3]'',
      ''         ```'',
      ''         '',
      ''      5. Generate professional documentation (Docstrings/README format) for the '' @ (if isConversion lang targetLanguage then text_of targetLanguage else ''optimized'') @ '' code in the `documentation` field. **Use structured multi-line Markdown with clear sections (e.g., Overview, Parameters, Returns, Examples).**'',
      ''      6. Analyze Time, Space, and Cyclomatic complexity of the '' @ (if isConversion lang targetLanguage then ''converted'' else ''optimized'') @ '' code.'',
      ''      7. Provide detailed scores (0-10) for Quality, Readability, Optimization, Security, Technical Debt (10 = no debt, 0 = high debt), and Style Consistency.'',
      [],
      ''      Code to review:'',
      ''      ```'',
      ''      '' @ code,
      ''      ```'']\<close>

definition review_prompt ::
  "string \<Rightarrow> string \<Rightarrow> ReviewMode \<Rightarrow> string option \<Rightarrow> ImplementationStyle \<Rightarrow> string \<Rightarrow> string
   \<Rightarrow> VerbosityLevel \<Rightarrow> ToneStyle \<Rightarrow> string" where
  "review_prompt code lang mode targetLanguage style errorLog houseStyle verbosity tone =
     join_lines (review_prompt_lines code lang mode targetLanguage style errorLog houseStyle verbosity tone)"

text \<open>The \<^verbatim>\<open>systemInstruction\<close> of \<^verbatim>\<open>chatWithCode\<close>.\<close>

definition chat_instruction :: "string \<Rightarrow> string \<Rightarrow> string" where
  \<open>chat_instruction code errorLog =
    join_lines
     [''You are a helpful AI coding assistant. Your goal is to answer the user's questions about the provided code snippet.'',
      ''      '',
      ''      Provide clear, concise, and accurate answers. If the user asks for explanations, explain the logic step-by-step. If they ask for improvements, suggest them.'',
      ''      '',
      ''      '' @ (if errorLog \<noteq> [] then ''The user also provided the following ERROR/BUG LOG for context:'' @ [newline] @ errorLog @ [newline] else []),
      ''      '',
      ''      CURRENT CODE IN EDITOR:'',
      ''      ```'',
      ''      '' @ code,
      ''      ```'']\<close>

subsection \<open>The backing service\<close>

text \<open>
  One call to the service: \<^verbatim>\<open>ai.models.generateContent\<close> with the concrete model name and the
  prompt (the configuration, with the response schema, is the same in every call), or
  \<^verbatim>\<open>chat.sendMessage\<close> on a chat created with the model name, the system instruction and the
  prior turns. The service either throws an error, whose \<^verbatim>\<open>message\<close> may be missing, or
  answers, and the \<^verbatim>\<open>text\<close> of the answer may be missing.
\<close>

datatype role = user | model_role

datatype network_call =
    GenerateContent string string
  | SendMessage string string "(role \<times> string) list" string

datatype service_outcome = Throws "string option" | Responds "string option"

text \<open>
  Every error the module throws itself is \<^verbatim>\<open>new Error(message)\<close>; \<open>Rethrown\<close> is an error of
  the service that passes through uncaught.
\<close>

datatype js_error = Error string | Rethrown "string option"

definition includes_str :: "string option \<Rightarrow> string \<Rightarrow> bool" where
  "includes_str message sub =
     (case message of
        None \<Rightarrow> False
      | Some m \<Rightarrow> list_ex (\<lambda>i. take (length sub) (drop i m) = sub) [0..<Suc (length m)])"

subsection \<open>\<^verbatim>\<open>reviewCode\<close>\<close>

text \<open>The \<^verbatim>\<open>catch (apiError)\<close> block: the error thrown in its place.\<close>

definition classify :: "string option \<Rightarrow> js_error" where
  "classify message =
     (if includes_str message ''API key''
      then Error ''Invalid API key configuration. Please check your environment variables.''
      else if includes_str message ''safety''
      then Error ''The code review was blocked by safety filters. Please ensure your code follows safety guidelines.''
      else if includes_str message ''quota'' \<or> includes_str message ''429''
      then Error ''API quota exceeded or too many requests. Please wait a moment before trying again.''
      else Error (or_else message ''An error occurred while communicating with the AI. Please check your connection and try again.''))"

definition empty_response_message :: string where
  "empty_response_message = ''The AI model returned an empty response. Please try again.''"

definition malformed_response_message :: string where
  "malformed_response_message = ''Failed to process the AI's response. The generated content was not in the expected format.''"

definition missing_key_message :: string where
  "missing_key_message = ''GEMINI_API_KEY is not set''"

text \<open>
  \<open>apiKey\<close> is \<^verbatim>\<open>process.env.GEMINI_API_KEY\<close>. The result is the list of calls made to the
  service and what the function throws (\<open>Inl\<close>) or returns (\<open>Inr\<close>): the value of
  \<^verbatim>\<open>JSON.parse(text)\<close>, which the cast \<^verbatim>\<open>as CodeReviewResult\<close> does not inspect. The two errors
  thrown inside the \<^verbatim>\<open>try\<close> block are caught by its \<^verbatim>\<open>catch\<close> like the errors of the service.
\<close>

definition reviewCode ::
  "string option \<Rightarrow> (network_call \<Rightarrow> service_outcome) \<Rightarrow> string \<Rightarrow> string \<Rightarrow> ReviewMode \<Rightarrow> string option
   \<Rightarrow> ImplementationStyle \<Rightarrow> string \<Rightarrow> string \<Rightarrow> string \<Rightarrow> VerbosityLevel \<Rightarrow> ToneStyle
   \<Rightarrow> network_call list \<times> (js_error + json)" where
  "reviewCode apiKey service code lang mode targetLanguage style model errorLog houseStyle verbosity tone =
     (if falsy apiKey then ([], Inl (Error missing_key_message))
      else
        (let call = GenerateContent (mapModel model)
                      (review_prompt code lang mode targetLanguage style errorLog houseStyle verbosity tone)
         in ([call],
             (case service call of
                Throws message \<Rightarrow> Inl (classify message)
              | Responds payload \<Rightarrow>
                  if falsy payload then Inl (classify (Some empty_response_message))
                  else (case JSON_parse (text_of payload) of
                          None \<Rightarrow> Inl (classify (Some malformed_response_message))
                        | Some v \<Rightarrow> Inr v)))))"

subsection \<open>\<^verbatim>\<open>chatWithCode\<close>\<close>

definition fallback_answer :: string where
  "fallback_answer = ''I'm sorry, I couldn't generate a response.''"

definition chatWithCode ::
  "string option \<Rightarrow> (network_call \<Rightarrow> service_outcome) \<Rightarrow> string \<Rightarrow> string \<Rightarrow> (role \<times> string) list
   \<Rightarrow> string \<Rightarrow> string \<Rightarrow> network_call list \<times> (js_error + string)" where
  "chatWithCode apiKey service code question prior model errorLog =
     (if falsy apiKey then ([], Inl (Error missing_key_message))
      else
        (let call = SendMessage (mapModel model) (chat_instruction code errorLog) prior question
         in ([call],
             (case service call of
                Throws message \<Rightarrow> Inl (Rethrown message)
              | Responds payload \<Rightarrow> Inr (or_else payload fallback_answer)))))"

subsection \<open>The declared response schema\<close>






subsection \<open>Auxiliary definitions for the statements\<close>

text \<open>A service that gives the same outcome to every call.\<close>

definition answering :: "service_outcome \<Rightarrow> network_call \<Rightarrow> service_outcome" where
  "answering outcome call = outcome"



section \<open>Properties of the history store\<close>

subsection \<open>The digest on concrete texts\<close>

lemma replicate_numeral_Cons: "replicate (numeral k) x = x # replicate (pred_numeral k) x"
  by (simp add: numeral_eq_Suc)

lemmas sha256_eval =
  sha256_hex_def hex32_def hex_digit_def sha256_words_def pad_def be64_def replicate_numeral_Cons
  compress_def K256_def H256_def next_window_def add32_def rotr_def shr_def Ch_def Maj_def
  bsig0_def bsig1_def ssig0_def ssig1_def

text \<open>The test vector of FIPS 180-4 for the message \<open>abc\<close>.\<close>

lemma sha256_hex_abc:
  "sha256_hex ''abc'' = ''ba7816bf8f01cfea414140de5dae2223b00361a396177a9cb410ff61f20015ad''"
  by (simp add: sha256_eval)

lemma sha256_hex_f_const:
  "sha256_hex ''function f(){}const f=()=>{};''
   = ''63b55af8f3376f370d0d6b536434437b5487100f382dc0fcf28cd10fcd0175cb''"
  by (simp add: sha256_eval)

subsection \<open>The digest is not injective\<close>

text \<open>
  Every digest is a text of 64 hexadecimal digits, so the digests are finitely many, and the
  texts of two or more bytes are infinitely many: two different such texts have the same
  digest, and each of them splits into a non-empty \<open>originalCode\<close> and a non-empty
  \<open>improvedCode\<close>.
\<close>

lemma length_round: "length (round st k w) = length st"
  by (induction st k w rule: round.induct) (simp_all add: Let_def)

lemma length_rounds: "length (rounds ks ws st) = length st"
  by (induction ks arbitrary: ws st) (simp_all add: length_round)

lemma length_compress: "length (compress hs blk) = length hs"
  by (simp add: compress_def length_rounds)

lemma length_foldl_compress: "length (foldl compress hs bl) = length hs"
  by (induction bl arbitrary: hs) (simp_all add: length_compress)

lemma length_sha256_words: "length (sha256_words bs) = 8"
  by (simp add: sha256_words_def Let_def length_foldl_compress H256_def)

lemma hex_digit_range: "hex_digit n \<in> set ''0123456789abcdef''"
proof -
  have "n mod 16 < length ''0123456789abcdef''"
    by simp
  then show ?thesis
    unfolding hex_digit_def by (rule nth_mem)
qed

lemma hex32_range: "set (hex32 w) \<subseteq> set ''0123456789abcdef''" and length_hex32: "length (hex32 w) = 8"
  using hex_digit_range by (simp_all add: hex32_def)

lemma concat_hex32:
  "set (concat (map hex32 ws)) \<subseteq> set ''0123456789abcdef''
   \<and> length (concat (map hex32 ws)) = 8 * length ws"
  using hex32_range by (induction ws) (simp_all add: length_hex32)

lemma sha256_hex_range:
  "sha256_hex s \<in> {t. set t \<subseteq> set ''0123456789abcdef'' \<and> length t = 64}"
  using concat_hex32 [of "sha256_words (map of_char s)"]
  by (simp add: sha256_hex_def length_sha256_words)

lemma finite_range_sha256_hex: "finite (range sha256_hex)"
proof -
  have "finite {t :: string. set t \<subseteq> set ''0123456789abcdef'' \<and> length t = 64}"
    by (rule finite_lists_length_eq) simp
  moreover have "range sha256_hex \<subseteq> {t. set t \<subseteq> set ''0123456789abcdef'' \<and> length t = 64}"
    using sha256_hex_range by (rule image_subsetI)
  ultimately show ?thesis
    by (rule rev_finite_subset)
qed

lemma infinite_long_texts: "infinite {s :: string. 2 \<le> length s}"
proof
  assume fin: "finite {s :: string. 2 \<le> length s}"
  have "finite {s :: string. set s \<subseteq> UNIV \<and> length s \<le> 1}"
    by (rule finite_lists_length_le) simp
  then have short: "finite {s :: string. length s \<le> 1}"
    by simp
  have "(UNIV :: string set) = {s. length s \<le> 1} \<union> {s. 2 \<le> length s}"
    by auto
  then have "finite (UNIV :: string set)"
    using short fin by (metis finite_Un)
  then show False
    using infinite_UNIV_listI by blast
qed

lemma sha256_hex_collision:
  "\<exists>x y. 2 \<le> length x \<and> 2 \<le> length y \<and> x \<noteq> y \<and> sha256_hex x = sha256_hex y"
proof -
  have "sha256_hex ` {s. 2 \<le> length s} \<subseteq> range sha256_hex"
    by (rule image_mono) simp
  then have "finite (sha256_hex ` {s. 2 \<le> length s})"
    using finite_range_sha256_hex by (rule finite_subset)
  then have "\<not> inj_on sha256_hex {s. 2 \<le> length s}"
    using infinite_long_texts finite_imageD by blast
  then show ?thesis
    unfolding inj_on_def by blast
qed

lemma collision_pairs:
  "\<exists>o1 i1 o2 i2. o1 \<noteq> [] \<and> i1 \<noteq> [] \<and> o2 \<noteq> [] \<and> i2 \<noteq> [] \<and> o1 @ i1 \<noteq> o2 @ i2
     \<and> sha256_hex (o1 @ i1) = sha256_hex (o2 @ i2)"
proof -
  obtain x y where x: "2 \<le> length x" and y: "2 \<le> length y" and ne: "x \<noteq> y"
    and eq: "sha256_hex x = sha256_hex y"
    using sha256_hex_collision by blast
  obtain a x' where xs: "x = a # x'" "x' \<noteq> []"
    using x by (cases x) (auto simp: Suc_le_eq)
  obtain b y' where ys: "y = b # y'" "y' \<noteq> []"
    using y by (cases y) (auto simp: Suc_le_eq)
  have "[a] \<noteq> [] \<and> x' \<noteq> [] \<and> [b] \<noteq> [] \<and> y' \<noteq> [] \<and> [a] @ x' \<noteq> [b] @ y'
        \<and> sha256_hex ([a] @ x') = sha256_hex ([b] @ y')"
    using xs ys ne eq by simp
  then show ?thesis by blast
qed

subsection \<open>Recording\<close>

lemma post_history_valid:
  assumes "oc \<noteq> []" and "ic \<noteq> []"
  shows "post_history db now False (body oc ic l c) =
     (if sha256_hex (oc @ ic) \<in> stored_hashes db
      then (db\<lparr>seq := Suc (seq db)\<rparr>, Json_inserted False)
      else (db\<lparr>history := history db @
                 [\<lparr>row_id = Suc (seq db), originalCode = oc, improvedCode = ic, timestamp = now,
                   language = or_else l ''unknown'',
                   timeComplexity = or_else (complexity_time c) ''unknown'',
                   spaceComplexity = or_else (complexity_space c) ''unknown'',
                   cyclomaticComplexity = or_zero (complexity_cyclomatic c),
                   hash = sha256_hex (oc @ ic)\<rparr>],
               seq := Suc (seq db)\<rparr>, Json_inserted True))"
  using assms
  by (simp add: post_history_def body_def falsy_def or_else_def insert_or_ignore_def stored_hashes_def)

lemma stored_hashes_insert_or_ignore:
  "stored_hashes (fst (insert_or_ignore db r)) = insert (hash r) (stored_hashes db)"
  by (auto simp: insert_or_ignore_def stored_hashes_def)

lemma stored_hashes_post_history:
  "stored_hashes db \<subseteq> stored_hashes (fst (post_history db now fault b))"
proof -
  have "stored_hashes db \<subseteq> stored_hashes (fst (insert_or_ignore db r))" for r
    by (simp add: stored_hashes_insert_or_ignore subset_insertI)
  then show ?thesis
    by (simp add: post_history_def Let_def split_beta)
qed

lemma stored_hashes_run_posts:
  "stored_hashes db \<subseteq> stored_hashes (run_posts db calls)"
proof (induction calls arbitrary: db)
  case Nil
  show ?case by simp
next
  case (Cons call calls)
  obtain now fault b where call: "call = (now, fault, b)"
    by (cases call) auto
  have "stored_hashes db \<subseteq> stored_hashes (fst (post_history db now fault b))"
    by (rule stored_hashes_post_history)
  also have "\<dots> \<subseteq> stored_hashes (run_posts (fst (post_history db now fault b)) calls)"
    by (rule Cons.IH)
  finally show ?case by (simp add: call)
qed

lemma stored_after_post:
  assumes "oc \<noteq> []" and "ic \<noteq> []"
  shows "sha256_hex (oc @ ic) \<in> stored_hashes (fst (post_history db now False (body oc ic l c)))"
  using assms by (simp add: post_history_valid stored_hashes_def)

text \<open>
  C4. A POST whose \<open>originalCode\<close> is the empty text, or whose \<open>improvedCode\<close> is, is answered
  with status 400 and the error ``Missing required fields'', and the database is the one
  before the call: no row is written. This holds whatever the other fields, the clock and
  the storage engine do.
\<close>

theorem post_history_empty_field_400:
  "body_originalCode b = Some [] \<or> body_improvedCode b = Some []
   \<Longrightarrow> post_history db now fault b = (db, Json_error 400 ''Missing required fields'')"
  by (auto simp: post_history_def falsy_def)

theorem post_history_empty_field_400_witness:
  "post_history empty_db ''2026-01-01T00:00:00.000Z'' False
     \<lparr>body_originalCode = Some [], body_improvedCode = Some ''x'',
      body_language = None, body_complexity = None\<rparr>
   = (empty_db, Json_error 400 ''Missing required fields'')
   \<and> post_history empty_db ''2026-01-01T00:00:00.000Z'' False
     \<lparr>body_originalCode = Some ''x'', body_improvedCode = Some [],
      body_language = None, body_complexity = None\<rparr>
   = (empty_db, Json_error 400 ''Missing required fields'')"
  using post_history_empty_field_400 [of "\<lparr>body_originalCode = Some [], body_improvedCode = Some ''x'',
      body_language = None, body_complexity = None\<rparr>" empty_db "''2026-01-01T00:00:00.000Z''" False]
    post_history_empty_field_400 [of "\<lparr>body_originalCode = Some ''x'', body_improvedCode = Some [],
      body_language = None, body_complexity = None\<rparr>" empty_db "''2026-01-01T00:00:00.000Z''" False]
  by simp

text \<open>
  C1. Two POST calls with the same \<open>originalCode\<close> and the same \<open>improvedCode\<close>, both non-empty
  and neither hitting a storage fault: whatever language and complexity each one carries,
  whatever the clock reads, and whatever other POST calls are served in between, the second
  call is answered \<^verbatim>\<open>{success: true, inserted: false}\<close> and the rows of the table after it are
  the rows before it, so their number is unchanged.
\<close>

theorem post_history_duplicate_is_noop:
  assumes "oc \<noteq> []" and "ic \<noteq> []"
    and "db1 = fst (post_history db t1 False (body oc ic l1 c1))"
    and "db2 = run_posts db1 calls"
  shows "snd (post_history db2 t2 False (body oc ic l2 c2)) = Json_inserted False
         \<and> history (fst (post_history db2 t2 False (body oc ic l2 c2))) = history db2
         \<and> length (history (fst (post_history db2 t2 False (body oc ic l2 c2)))) = length (history db2)"
proof -
  have "sha256_hex (oc @ ic) \<in> stored_hashes db1"
    using assms(1-3) by (simp add: stored_after_post)
  then have "sha256_hex (oc @ ic) \<in> stored_hashes db2"
    using stored_hashes_run_posts [of db1 calls] assms(4) by auto
  then have "post_history db2 t2 False (body oc ic l2 c2)
             = (db2\<lparr>seq := Suc (seq db2)\<rparr>, Json_inserted False)"
    using assms(1,2) by (simp add: post_history_valid)
  then show ?thesis by simp
qed

lemma run_posts_example:
  "map originalCode (history (run_posts
       (fst (post_history empty_db ''2026-01-01T00:00:00.000Z'' False
               (body ''ab'' ''c'' (Some ''javascript'') None)))
       [(''2026-01-01T00:00:01.000Z'', False, body ''x'' [] None None),
        (''2026-01-01T00:00:02.000Z'', True, body ''x'' ''y'' None None),
        (''2026-01-01T00:00:03.000Z'', False, body ''function f(){}'' ''const f=()=>{};'' None None)]))
   = [''ab'', ''function f(){}'']"
proof -
  have p1: "post_history db now fault (body ''x'' [] None None)
            = (db, Json_error 400 ''Missing required fields'')" for db now fault
    by (simp add: post_history_def body_def falsy_def)
  have p2: "post_history db now True (body ''x'' ''y'' None None)
            = (db, Json_error 500 ''Failed to save history'')" for db now
    by (simp add: post_history_def body_def falsy_def)
  show ?thesis
    by (simp add: p1 p2 post_history_valid stored_hashes_def empty_db_def
          sha256_hex_abc sha256_hex_f_const)
qed

theorem post_history_duplicate_is_noop_witness:
  "''ab'' \<noteq> [] \<and> ''c'' \<noteq> []
   \<and> map originalCode (history (run_posts
       (fst (post_history empty_db ''2026-01-01T00:00:00.000Z'' False
               (body ''ab'' ''c'' (Some ''javascript'') None)))
       [(''2026-01-01T00:00:01.000Z'', False, body ''x'' [] None None),
        (''2026-01-01T00:00:02.000Z'', True, body ''x'' ''y'' None None),
        (''2026-01-01T00:00:03.000Z'', False, body ''function f(){}'' ''const f=()=>{};'' None None)]))
     = [''ab'', ''function f(){}'']
   \<and> snd (post_history
       (run_posts
          (fst (post_history empty_db ''2026-01-01T00:00:00.000Z'' False
                  (body ''ab'' ''c'' (Some ''javascript'') None)))
          [(''2026-01-01T00:00:01.000Z'', False, body ''x'' [] None None),
           (''2026-01-01T00:00:02.000Z'', True, body ''x'' ''y'' None None),
           (''2026-01-01T00:00:03.000Z'', False, body ''function f(){}'' ''const f=()=>{};'' None None)])
       ''2026-01-01T00:00:04.000Z'' False
       (body ''ab'' ''c'' None (Some \<lparr>time = Some ''O(1)'', space = Some ''O(1)'', cyclomatic = Some 1\<rparr>)))
     = Json_inserted False
   \<and> map originalCode (history (fst (post_history
       (run_posts
          (fst (post_history empty_db ''2026-01-01T00:00:00.000Z'' False
                  (body ''ab'' ''c'' (Some ''javascript'') None)))
          [(''2026-01-01T00:00:01.000Z'', False, body ''x'' [] None None),
           (''2026-01-01T00:00:02.000Z'', True, body ''x'' ''y'' None None),
           (''2026-01-01T00:00:03.000Z'', False, body ''function f(){}'' ''const f=()=>{};'' None None)])
       ''2026-01-01T00:00:04.000Z'' False
       (body ''ab'' ''c'' None (Some \<lparr>time = Some ''O(1)'', space = Some ''O(1)'', cyclomatic = Some 1\<rparr>)))))
     = [''ab'', ''function f(){}'']"
proof -
  have ne: "''ab'' \<noteq> []" "''c'' \<noteq> []" by simp_all
  note dup = post_history_duplicate_is_noop [OF ne refl refl,
        of empty_db "''2026-01-01T00:00:00.000Z''" "Some ''javascript''" None
           "[(''2026-01-01T00:00:01.000Z'', False, body ''x'' [] None None),
             (''2026-01-01T00:00:02.000Z'', True, body ''x'' ''y'' None None),
             (''2026-01-01T00:00:03.000Z'', False, body ''function f(){}'' ''const f=()=>{};'' None None)]"
           "''2026-01-01T00:00:04.000Z''" None
           "Some \<lparr>time = Some ''O(1)'', space = Some ''O(1)'', cyclomatic = Some 1\<rparr>"]
  show ?thesis
    by (intro conjI)
       (rule ne(1), rule ne(2), rule run_posts_example, rule dup [THEN conjunct1],
        simp only: dup [THEN conjunct2, THEN conjunct1] run_posts_example)
qed

text \<open>
  C10. The pairs \<open>(''ab'', ''c'')\<close> and \<open>(''a'', ''bc'')\<close> are different and have the same
  concatenation. On the empty database the first is recorded with \<open>inserted = true\<close> and makes
  one row; the second is then answered \<open>inserted = false\<close> and the rows of the table stay as
  they were: the key is the digest of the bare concatenation, which does not determine the
  pair.
\<close>

theorem post_history_concatenation_collision:
  "(''ab'', ''c'') \<noteq> (''a'', ''bc'')
   \<and> snd (post_history empty_db t1 False (body ''ab'' ''c'' l1 c1)) = Json_inserted True
   \<and> length (history (fst (post_history empty_db t1 False (body ''ab'' ''c'' l1 c1)))) = 1
   \<and> snd (post_history (fst (post_history empty_db t1 False (body ''ab'' ''c'' l1 c1))) t2 False
            (body ''a'' ''bc'' l2 c2))
       = Json_inserted False
   \<and> history (fst (post_history (fst (post_history empty_db t1 False (body ''ab'' ''c'' l1 c1)))
                      t2 False (body ''a'' ''bc'' l2 c2)))
       = history (fst (post_history empty_db t1 False (body ''ab'' ''c'' l1 c1)))
   \<and> map (\<lambda>r. (originalCode r, improvedCode r))
         (history (fst (post_history (fst (post_history empty_db t1 False (body ''ab'' ''c'' l1 c1)))
                      t2 False (body ''a'' ''bc'' l2 c2))))
       = [(''ab'', ''c'')]"
  by (simp add: post_history_valid stored_hashes_def empty_db_def)

lemma sorted_wrt_newest_first:
  "sorted_wrt (\<lambda>r r'. timestamp r' \<le> timestamp r) (rev (sort_key timestamp (rev rows)))"
proof -
  have "sorted (map timestamp (sort_key timestamp (rev rows)))"
    by (rule sorted_sort_key)
  then have "sorted_wrt (\<lambda>r r'. timestamp r \<le> timestamp r') (sort_key timestamp (rev rows))"
    by (simp add: sorted_map)
  then show ?thesis
    by (simp add: sorted_wrt_rev)
qed

lemma stable_newest_first:
  "filter (\<lambda>r. timestamp r = t) (rev (sort_key timestamp (rev rows)))
   = filter (\<lambda>r. timestamp r = t) rows"
proof -
  have "filter (\<lambda>r. timestamp r = t) (rev (sort_key timestamp (rev rows)))
        = rev (filter (\<lambda>r. timestamp r = t) (sort_key timestamp (rev rows)))"
    by (simp add: rev_filter)
  also have "\<dots> = rev (filter (\<lambda>r. timestamp r = t) (rev rows))"
    by (simp only: sort_key_stable)
  also have "\<dots> = filter (\<lambda>r. timestamp r = t) rows"
    by (simp add: rev_filter)
  finally show ?thesis .
qed

text \<open>
  Three rows, the first and the third of the same timestamp and the second newer: the
  newer row is listed first, and the two others follow in the order of their insertion.
\<close>

lemma select_history_ties:
  assumes "timestamp r1 = t" and "timestamp r3 = t" and "t < timestamp r2"
  shows "select_history \<lparr>history = [r1, r2, r3], seq = n\<rparr> = [r2, r1, r3]"
  using assms by (simp add: select_history_def)

text \<open>
  C3. When the storage engine does not fault, GET answers with the first 100 rows of the
  table sorted newest first: there is a list that holds exactly the rows of the table (each
  as often as the table does), in which every row's timestamp is at least the timestamp of
  every row after it and rows of equal timestamp stand in the order of their insertion, and
  the answer is its first 100 rows. So the answer is no longer than 100 (it has the length
  of the table when the table is shorter), is itself sorted by descending timestamp, and no
  row left out is newer than a row listed. On a database without rows the answer is the
  empty list, with status 200.
\<close>

theorem get_history_at_most_100_newest_first:
  "get_history db False = Json_rows (select_history db)
   \<and> length (select_history db) \<le> 100
   \<and> length (select_history db) = min 100 (length (history db))
   \<and> set (select_history db) \<subseteq> set (history db)
   \<and> sorted_wrt (\<lambda>r r'. timestamp r' \<le> timestamp r) (select_history db)
   \<and> get_history (db\<lparr>history := []\<rparr>) False = Json_rows []
   \<and> (\<exists>l. select_history db = take 100 l
          \<and> mset l = mset (history db)
          \<and> sorted_wrt (\<lambda>r r'. timestamp r' \<le> timestamp r) l
          \<and> (\<forall>t. filter (\<lambda>r. timestamp r = t) l = filter (\<lambda>r. timestamp r = t) (history db)))"
proof -
  define l where "l = rev (sort_key timestamp (rev (history db)))"
  have sel: "select_history db = take 100 l"
    by (simp add: select_history_def l_def)
  have perm: "mset l = mset (history db)"
    by (simp add: l_def)
  have srt: "sorted_wrt (\<lambda>r r'. timestamp r' \<le> timestamp r) l"
    unfolding l_def by (rule sorted_wrt_newest_first)
  have stb: "\<forall>t. filter (\<lambda>r. timestamp r = t) l = filter (\<lambda>r. timestamp r = t) (history db)"
    unfolding l_def by (simp only: stable_newest_first) simp
  have len: "length l = length (history db)"
    using perm by (rule mset_eq_length)
  have sub: "set (select_history db) \<subseteq> set (history db)"
    using set_take_subset [of 100 l] mset_eq_setD [OF perm] by (simp add: sel)
  have srt': "sorted_wrt (\<lambda>r r'. timestamp r' \<le> timestamp r) (select_history db)"
    unfolding sel using srt by (rule sorted_wrt_take)
  have c1: "get_history db False = Json_rows (select_history db)"
    by (simp add: get_history_def)
  have c2: "length (select_history db) \<le> 100"
    by (simp add: sel)
  have c3: "length (select_history db) = min 100 (length (history db))"
    by (simp add: sel len min.commute)
  have c6: "get_history (db\<lparr>history := []\<rparr>) False = Json_rows []"
    by (simp add: get_history_def select_history_def)
  have c7: "\<exists>l. select_history db = take 100 l
          \<and> mset l = mset (history db)
          \<and> sorted_wrt (\<lambda>r r'. timestamp r' \<le> timestamp r) l
          \<and> (\<forall>t. filter (\<lambda>r. timestamp r = t) l = filter (\<lambda>r. timestamp r = t) (history db))"
    using sel perm srt stb by blast
  show ?thesis
    by (intro conjI) (rule c1, rule c2, rule c3, rule sub, rule srt', rule c6, rule c7)
qed

text \<open>
  Two POST calls, one after the other, all four code texts non-empty, no storage fault, the
  two digests different from each other and neither of them in the table before the first
  call: both calls are answered \<open>inserted = true\<close>, and the table afterwards is the table
  before followed by two rows, the first holding the first pair and the second the second
  pair, with different hashes and different ids.
\<close>

lemma post_history_fresh_digests:
  assumes "o1 \<noteq> []" and "i1 \<noteq> []" and "o2 \<noteq> []" and "i2 \<noteq> []"
    and "sha256_hex (o1 @ i1) \<noteq> sha256_hex (o2 @ i2)"
    and "sha256_hex (o1 @ i1) \<notin> stored_hashes db"
    and "sha256_hex (o2 @ i2) \<notin> stored_hashes db"
  shows "\<exists>db1 db2 r1 r2.
           post_history db t1 False (body o1 i1 l1 c1) = (db1, Json_inserted True)
         \<and> post_history db1 t2 False (body o2 i2 l2 c2) = (db2, Json_inserted True)
         \<and> history db2 = history db @ [r1, r2]
         \<and> originalCode r1 = o1 \<and> improvedCode r1 = i1
         \<and> originalCode r2 = o2 \<and> improvedCode r2 = i2
         \<and> hash r1 \<noteq> hash r2 \<and> row_id r1 \<noteq> row_id r2"
proof -
  define r1 where "r1 =
       \<lparr>row_id = Suc (seq db), originalCode = o1, improvedCode = i1, timestamp = t1,
         language = or_else l1 ''unknown'',
         timeComplexity = or_else (complexity_time c1) ''unknown'',
         spaceComplexity = or_else (complexity_space c1) ''unknown'',
         cyclomaticComplexity = or_zero (complexity_cyclomatic c1),
         hash = sha256_hex (o1 @ i1)\<rparr>"
  define db1 where "db1 = db\<lparr>history := history db @ [r1], seq := Suc (seq db)\<rparr>"
  define r2 where "r2 =
       \<lparr>row_id = Suc (seq db1), originalCode = o2, improvedCode = i2, timestamp = t2,
         language = or_else l2 ''unknown'',
         timeComplexity = or_else (complexity_time c2) ''unknown'',
         spaceComplexity = or_else (complexity_space c2) ''unknown'',
         cyclomaticComplexity = or_zero (complexity_cyclomatic c2),
         hash = sha256_hex (o2 @ i2)\<rparr>"
  define db2 where "db2 = db1\<lparr>history := history db1 @ [r2], seq := Suc (seq db1)\<rparr>"
  have p1: "post_history db t1 False (body o1 i1 l1 c1) = (db1, Json_inserted True)"
    using assms(1,2,6) by (simp add: post_history_valid db1_def r1_def)
  have "stored_hashes db1 = insert (sha256_hex (o1 @ i1)) (stored_hashes db)"
    by (simp add: stored_hashes_def db1_def r1_def)
  then have fresh: "sha256_hex (o2 @ i2) \<notin> stored_hashes db1"
    using assms(5,7) by auto
  have p2: "post_history db1 t2 False (body o2 i2 l2 c2) = (db2, Json_inserted True)"
    using assms(3,4) fresh by (simp add: post_history_valid db2_def r2_def)
  have h: "history db2 = history db @ [r1, r2]"
    by (simp add: db2_def db1_def)
  have f: "originalCode r1 = o1 \<and> improvedCode r1 = i1 \<and> originalCode r2 = o2 \<and> improvedCode r2 = i2
           \<and> hash r1 \<noteq> hash r2 \<and> row_id r1 \<noteq> row_id r2"
    using assms(5) by (simp add: r1_def r2_def db1_def)
  show ?thesis
    using p1 p2 h f by blast
qed

section \<open>Properties of the review service\<close>


text \<open>
  C8. \<^verbatim>\<open>mapModel\<close> is a fixed table: \<open>claude-4\<close> is served by \<open>gemini-3-flash-preview\<close>, and
  \<open>gpt-5\<close>, \<open>microsoft-copilot\<close> and \<open>github-copilot\<close> by \<open>gemini-3.1-pro-preview\<close>; every
  identifier that is none of these four is returned unchanged.
\<close>

theorem mapModel_table:
  "mapModel ''claude-4'' = ''gemini-3-flash-preview''
   \<and> mapModel ''gpt-5'' = ''gemini-3.1-pro-preview''
   \<and> mapModel ''microsoft-copilot'' = ''gemini-3.1-pro-preview''
   \<and> mapModel ''github-copilot'' = ''gemini-3.1-pro-preview''
   \<and> (m \<notin> {''claude-4'', ''gpt-5'', ''microsoft-copilot'', ''github-copilot''} \<longrightarrow> mapModel m = m)"
  by (simp add: mapModel_def)

theorem mapModel_table_witness:
  "''gemini-3.1-pro-preview'' \<notin> {''claude-4'', ''gpt-5'', ''microsoft-copilot'', ''github-copilot''}
   \<and> mapModel ''gemini-3.1-pro-preview'' = ''gemini-3.1-pro-preview''
   \<and> ''llama-9'' \<notin> {''claude-4'', ''gpt-5'', ''microsoft-copilot'', ''github-copilot''}
   \<and> mapModel ''llama-9'' = ''llama-9''"
  using mapModel_table [of "''gemini-3.1-pro-preview''"] mapModel_table [of "''llama-9''"]
  by simp

text \<open>
  C6. When the environment variable is unset or empty, \<^verbatim>\<open>reviewCode\<close> throws the error
  ``GEMINI_API_KEY is not set'' and has made no call to the service, whatever its arguments
  and whatever the service would answer; \<^verbatim>\<open>chatWithCode\<close> does the same.
\<close>

theorem no_credential_no_call:
  "apiKey = None \<or> apiKey = Some []
   \<Longrightarrow> reviewCode apiKey service code lang mode targetLanguage style model errorLog houseStyle verbosity tone
         = ([], Inl (Error ''GEMINI_API_KEY is not set''))
       \<and> chatWithCode apiKey service code question prior model errorLog
         = ([], Inl (Error ''GEMINI_API_KEY is not set''))"
  by (auto simp: reviewCode_def chatWithCode_def falsy_def missing_key_message_def)

theorem no_credential_no_call_witness:
  "reviewCode None (answering (Responds (Some ''{}''))) ''auto-detect me'' ''auto'' student None
       default_style ''gemini-3-flash-preview'' [] [] normal professional
     = ([], Inl (Error ''GEMINI_API_KEY is not set''))
   \<and> chatWithCode None (answering (Responds (Some ''hello''))) ''x = 1'' ''why?'' []
       ''gemini-3-flash-preview'' []
     = ([], Inl (Error ''GEMINI_API_KEY is not set''))"
  using no_credential_no_call [of None "answering (Responds (Some ''{}''))" "''auto-detect me''" "''auto''"
      student None default_style "''gemini-3-flash-preview''" "[]" "[]" normal professional]
    no_credential_no_call [where apiKey = None and service = "answering (Responds (Some ''hello''))"
      and code = "''x = 1''" and model = "''gemini-3-flash-preview''" and errorLog = "[]"
      and question = "''why?''" and prior = "[]"]
  by simp

text \<open>
  C9. With a credential configured, \<^verbatim>\<open>chatWithCode\<close> makes one call, and when the service
  answers it, the function returns: the fixed text ``I'm sorry, I couldn't generate a
  response.'' when the answer carries no text or the empty text, and the text of the answer
  otherwise.
\<close>

theorem chatWithCode_fallback:
  assumes "apiKey = Some key" and "key \<noteq> []"
    and "service (SendMessage (mapModel model) (chat_instruction code errorLog) prior question)
         = Responds payload"
  shows "chatWithCode apiKey service code question prior model errorLog
         = ([SendMessage (mapModel model) (chat_instruction code errorLog) prior question],
            Inr (case payload of
                   None \<Rightarrow> ''I'm sorry, I couldn't generate a response.''
                 | Some answer \<Rightarrow>
                     if answer = [] then ''I'm sorry, I couldn't generate a response.'' else answer))"
  using assms
  by (simp add: chatWithCode_def falsy_def or_else_def fallback_answer_def split: option.splits)

theorem chatWithCode_fallback_witness:
  "snd (chatWithCode (Some ''k'') (answering (Responds None)) ''x = 1'' ''why?'' [] ''gpt-5'' [])
     = Inr ''I'm sorry, I couldn't generate a response.''
   \<and> snd (chatWithCode (Some ''k'') (answering (Responds (Some []))) ''x = 1'' ''why?'' [] ''gpt-5'' [])
     = Inr ''I'm sorry, I couldn't generate a response.''
   \<and> snd (chatWithCode (Some ''k'') (answering (Responds (Some ''Because.''))) ''x = 1'' ''why?''
          [(user, ''hi''), (model_role, ''hello'')] ''gpt-5'' [])
     = Inr ''Because.''"
proof -
  have k: "''k'' \<noteq> []" by simp
  have a: "answering out call = Responds payload \<longleftrightarrow> out = Responds payload" for out call payload
    by (simp add: answering_def)
  show ?thesis
    using chatWithCode_fallback [OF refl k, where service = "answering (Responds None)"
        and payload = None and model = "''gpt-5''" and code = "''x = 1''" and errorLog = "[]"
        and prior = "[]" and question = "''why?''"]
      chatWithCode_fallback [OF refl k, where service = "answering (Responds (Some []))"
        and payload = "Some []" and model = "''gpt-5''" and code = "''x = 1''" and errorLog = "[]"
        and prior = "[]" and question = "''why?''"]
      chatWithCode_fallback [OF refl k, where service = "answering (Responds (Some ''Because.''))"
        and payload = "Some ''Because.''" and model = "''gpt-5''" and code = "''x = 1''"
        and errorLog = "[]" and prior = "[(user, ''hi''), (model_role, ''hello'')]"
        and question = "''why?''"]
    by (simp add: a)
qed












end
